theory Spec2Isabelle
  imports Complex_Main
begin

section \<open>Smart maintenance agent: the orchestration pipeline\<close>

text \<open>
  A shallow embedding of \<^verbatim>\<open>smart_maintenance_agent.py\<close>: the per-device state
  store, the risk scorer, the plan composer, the alert evaluator and the coordinator.

  Conventions of the model.
  \<^item> Python floats are modelled as exact rationals (\<^typ>\<open>rat\<close>). Every number the
    scorer produces is a sum of the weights \<open>0.4\<close>, \<open>0.3\<close>, \<open>0.2\<close> passed through
    \<^verbatim>\<open>round(_, 2)\<close>, whose result is the double nearest to the two-digit decimal, so
    comparisons with the literals of the source agree with the exact ones.
  \<^item> Python strings are modelled as \<^typ>\<open>string\<close>; one \<^typ>\<open>char\<close> stands for one
    character of ASCII text, and the few non-ASCII characters of the fixed texts are
    written as their UTF-8 bytes.
  \<^item> The module-level dictionary \<^verbatim>\<open>STATE\<close> is passed explicitly and returned updated.
  \<^item> A raised exception is a value \<open>Inl e\<close> of a sum type.
\<close>

subsection \<open>Device state store\<close>

text \<open>
  A History Entry is the dictionary \<^verbatim>\<open>{"T": .., "P": .., "CPU": .., "risk": ..}\<close>; the
  fields carry the prefix \<open>h_\<close> so that the keys stay free as variable names.
\<close>

record history_entry =
  h_T :: rat
  h_P :: rat
  h_CPU :: rat
  h_risk :: rat

record device_record =
  history :: "history_entry list"
  lastRisk :: rat

type_synonym state = "string \<rightharpoonup> device_record"

text \<open>The initial value of \<^verbatim>\<open>STATE\<close>: the empty dictionary.\<close>

definition STATE_init :: state where
  "STATE_init = Map.empty"

text \<open>
  The slice \<^verbatim>\<open>xs[-n:]\<close> for \<open>n > 0\<close>: it starts at \<open>max (len xs - n) 0\<close>; the
  subtraction on \<^typ>\<open>nat\<close> truncates at \<open>0\<close> in the same way.
\<close>

definition py_slice_last :: "nat \<Rightarrow> 'a list \<Rightarrow> 'a list" where
  "py_slice_last n xs = drop (length xs - n) xs"

text \<open>The record \<^verbatim>\<open>{"history": [], "lastRisk": 0.0}\<close>.\<close>

definition fresh_record :: device_record where
  "fresh_record = \<lparr>history = [], lastRisk = 0\<rparr>"

definition update_state :: "string \<Rightarrow> rat \<Rightarrow> rat \<Rightarrow> rat \<Rightarrow> rat \<Rightarrow> state \<Rightarrow> state" where
  "update_state deviceId Temperature Pressure CPU_Usage risk st =
     (let st1 = (if st deviceId = None then st(deviceId \<mapsto> fresh_record) else st);
          rec1 = (case st1 deviceId of Some r \<Rightarrow> r | None \<Rightarrow> fresh_record);
          rec2 = rec1\<lparr>history :=
                   history rec1 @ [\<lparr>h_T = Temperature, h_P = Pressure, h_CPU = CPU_Usage, h_risk = risk\<rparr>]\<rparr>;
          rec3 = rec2\<lparr>history := py_slice_last 100 (history rec2)\<rparr>;
          rec4 = rec3\<lparr>lastRisk := risk\<rparr>
      in st1(deviceId \<mapsto> rec4))"

definition read_last_state :: "string \<Rightarrow> state \<Rightarrow> device_record" where
  "read_last_state deviceId st =
     (case st deviceId of Some r \<Rightarrow> r | None \<Rightarrow> fresh_record)"

text \<open>The invariant of one Device Record, and of the whole store.\<close>

definition record_ok :: "device_record \<Rightarrow> bool" where
  "record_ok r \<longleftrightarrow>
     length (history r) \<le> 100 \<and>
     lastRisk r = (if history r = [] then 0 else h_risk (last (history r)))"

definition store_ok :: "state \<Rightarrow> bool" where
  "store_ok st \<longleftrightarrow> (\<forall>r \<in> ran st. record_ok r)"

text \<open>
  A reading as \<^verbatim>\<open>update_state\<close> receives it: temperature, pressure, CPU load, risk.
  \<open>record_all\<close> applies \<^verbatim>\<open>update_state\<close> for one device to a list of readings, first
  reading first.
\<close>

type_synonym reading = "rat \<times> rat \<times> rat \<times> rat"

definition entry_of :: "reading \<Rightarrow> history_entry" where
  "entry_of rd = (case rd of (t, p, c, r) \<Rightarrow> \<lparr>h_T = t, h_P = p, h_CPU = c, h_risk = r\<rparr>)"

fun record_all :: "string \<Rightarrow> reading list \<Rightarrow> state \<Rightarrow> state" where
  "record_all deviceId [] st = st"
| "record_all deviceId ((t, p, c, r) # rds) st =
     record_all deviceId rds (update_state deviceId t p c r st)"

subsection \<open>Risk scorer\<close>

text \<open>
  \<^verbatim>\<open>round(x, 2)\<close>: the nearest multiple of \<open>1/100\<close>, a tie going to the even
  multiple.
\<close>

definition py_round2 :: "rat \<Rightarrow> rat" where
  "py_round2 x =
     (let y = x * 100; f = \<lfloor>y\<rfloor>; d = y - of_int f
      in of_int (if d < 1 / 2 then f
                 else if 1 / 2 < d then f + 1
                 else if even f then f else f + 1) / 100)"

definition compute_simple_risk :: "rat \<Rightarrow> rat \<Rightarrow> rat \<Rightarrow> rat" where
  "compute_simple_risk t p c =
     (let r0 = 0;
          r1 = (if t > 85 then r0 + 4 / 10 else r0);
          r2 = (if p > 75 / 10 then r1 + 3 / 10 else r1);
          r3 = (if c > 90 then r2 + 2 / 10 else r2)
      in py_round2 (min 1 (max 0 r3)))"

subsection \<open>Errors, strings and the environment\<close>

text \<open>
  The exceptions a run can raise: a missing dictionary key, the \<^verbatim>\<open>RuntimeError\<close> of
  \<^verbatim>\<open>build_search_client\<close>, and a failure of the search service itself.
\<close>

datatype error = KeyError string | RuntimeError string | SearchError string

text \<open>\<^verbatim>\<open>sep.join(xs)\<close>.\<close>

fun join :: "string \<Rightarrow> string list \<Rightarrow> string" where
  "join sep [] = []"
| "join sep [x] = x"
| "join sep (x # y # ys) = x @ sep @ join sep (y # ys)"

text \<open>
  The decimal digits of a natural number, as \<^verbatim>\<open>f"{i}"\<close> renders an index;
  \<open>digit_char\<close> is only applied to numbers below 10.
\<close>

definition digit_char :: "nat \<Rightarrow> char" where
  "digit_char d = ''0123456789'' ! d"

fun str_nat :: "nat \<Rightarrow> string" where
  "str_nat n = (if n < 10 then [digit_char n] else str_nat (n div 10) @ [digit_char (n mod 10)])"

declare str_nat.simps [simp del]

text \<open>
  \<^verbatim>\<open>s.strip()\<close>: leading and trailing whitespace removed. The whitespace characters
  of ASCII are the codes 9 to 13, 28 to 31 and 32.
\<close>

definition py_isspace :: "char \<Rightarrow> bool" where
  "py_isspace c \<longleftrightarrow>
     (let k = (of_char c :: nat) in (9 \<le> k \<and> k \<le> 13) \<or> (28 \<le> k \<and> k \<le> 31) \<or> k = 32)"

definition py_strip :: "string \<Rightarrow> string" where
  "py_strip s = rev (dropWhile py_isspace (rev (dropWhile py_isspace s)))"

text \<open>
  One record of the search result, read with \<^verbatim>\<open>r.get(key, default)\<close>: a field that
  is absent is \<open>None\<close>.
\<close>

record search_hit =
  hit_title :: "string option"
  hit_content :: "string option"
  hit_chunk :: "string option"
  hit_source :: "string option"
  hit_score :: "rat option"

text \<open>
  What the run takes from outside the module: the three settings of the search
  service read from the process environment, the service itself (the answer of
  \<^verbatim>\<open>client.search(query, top=topK, query_type="simple")\<close>, or its failure), and the
  two float formats of Python that the texts use: \<^verbatim>\<open>f"{x}"\<close> and \<^verbatim>\<open>f"{x:.2f}"\<close>.
\<close>

record env =
  AZURE_SEARCH_SERVICE :: "string option"
  AZURE_SEARCH_API_KEY :: "string option"
  AZURE_SEARCH_INDEX :: "string option"
  search_service :: "string \<Rightarrow> int \<Rightarrow> error + search_hit list"
  str_float :: "rat \<Rightarrow> string"
  fmt_2f :: "rat \<Rightarrow> string"

text \<open>
  The world a run acts on: the dictionary \<^verbatim>\<open>STATE\<close>, and the log of the calls of
  \<^verbatim>\<open>retrieve_docs\<close> made so far (query and \<open>topK\<close>, latest last). The log is not a
  variable of the source: it records the effect "retrieval was invoked".
\<close>

record world =
  STATE :: state
  retrieve_log :: "(string \<times> int) list"

subsection \<open>Predict\<close>

text \<open>
  The dictionary \<^verbatim>\<open>out\<close> of \<^verbatim>\<open>predict_failure_risk\<close>; its keys \<^verbatim>\<open>deviceId\<close>,
  \<^verbatim>\<open>risk\<close>, \<^verbatim>\<open>rationale\<close>, \<^verbatim>\<open>failure_modes\<close>, \<^verbatim>\<open>history_length\<close> carry the prefix
  \<open>pred_\<close>.
\<close>

record prediction =
  pred_deviceId :: string
  pred_risk :: rat
  pred_rationale :: string
  pred_failure_modes :: "string list"
  pred_history_length :: nat

definition predict_failure_risk ::
  "env \<Rightarrow> string \<Rightarrow> rat \<Rightarrow> rat \<Rightarrow> rat \<Rightarrow> world \<Rightarrow> prediction \<times> world" where
  "predict_failure_risk ev deviceId Temperature Pressure CPU_Usage w =
     (let risk = compute_simple_risk Temperature Pressure CPU_Usage;
          prev = read_last_state deviceId (STATE w);
          w1 = w\<lparr>STATE := update_state deviceId Temperature Pressure CPU_Usage risk (STATE w)\<rparr>;
          rationale =
            ''Heuristic thresholds '' @ [CHR 0xE2, CHR 0x86, CHR 0x92] @ '' Prev risk=''
            @ fmt_2f ev (lastRisk prev) @ '', ''
            @ ''Now='' @ fmt_2f ev risk @ '' (T='' @ str_float ev Temperature
            @ [CHR 0xC2, CHR 0xB0] @ ''C, P='' @ str_float ev Pressure
            @ '', CPU='' @ str_float ev CPU_Usage @ ''%).'';
          out = \<lparr>pred_deviceId = deviceId,
                 pred_risk = risk,
                 pred_rationale = rationale,
                 pred_failure_modes = [''overheating'', ''bearing wear'', ''misalignment''],
                 pred_history_length =
                   length (history (read_last_state deviceId (STATE w1)))\<rparr>
      in (out, w1))"

subsection \<open>Retrieve\<close>

text \<open>An Evidence Document: the dictionary \<^verbatim>\<open>retrieve_docs\<close> builds for one result.\<close>

record evidence_doc =
  title :: string
  snippet :: string
  source :: string
  score :: rat

definition get_or :: "'a option \<Rightarrow> 'a \<Rightarrow> 'a" where
  "get_or v d = (case v of Some x \<Rightarrow> x | None \<Rightarrow> d)"

text \<open>\<^verbatim>\<open>all([service, key, index])\<close>: each setting is present and not empty.\<close>

definition truthy :: "string option \<Rightarrow> bool" where
  "truthy v = (case v of Some s \<Rightarrow> s \<noteq> [] | None \<Rightarrow> False)"

definition build_search_client :: "env \<Rightarrow> error + (string \<Rightarrow> int \<Rightarrow> error + search_hit list)" where
  "build_search_client ev =
     (if \<not> (truthy (AZURE_SEARCH_SERVICE ev) \<and> truthy (AZURE_SEARCH_API_KEY ev)
             \<and> truthy (AZURE_SEARCH_INDEX ev))
      then Inl (RuntimeError ''Missing AZURE_SEARCH_* in .env (service, key, index).'')
      else Inr (search_service ev))"

definition doc_of_hit :: "search_hit \<Rightarrow> evidence_doc" where
  "doc_of_hit r =
     \<lparr>title = get_or (hit_title r) [],
      snippet = take 500 (if get_or (hit_content r) [] \<noteq> [] then get_or (hit_content r) []
                          else get_or (hit_chunk r) []),
      source = get_or (hit_source r) [],
      score = get_or (hit_score r) 0\<rparr>"

definition retrieve_docs ::
  "env \<Rightarrow> string \<Rightarrow> int \<Rightarrow> world \<Rightarrow> (error + evidence_doc list) \<times> world" where
  "retrieve_docs ev query topK w =
     (let w1 = w\<lparr>retrieve_log := retrieve_log w @ [(query, topK)]\<rparr>
      in case build_search_client ev of
           Inl e \<Rightarrow> (Inl e, w1)
         | Inr client \<Rightarrow>
             (case client query topK of
                Inl e \<Rightarrow> (Inl e, w1)
              | Inr results \<Rightarrow> (Inr (map doc_of_hit results), w1)))"

subsection \<open>Plan\<close>

definition NL :: string where
  "NL = [CHR 0x0A]"

definition no_evidence_line :: string where
  "no_evidence_line = ''- No external evidence referenced in this run.''"

text \<open>
  The loop that fills \<^verbatim>\<open>ev_lines\<close>: one line for each of the first three documents,
  numbered from 1.
\<close>

definition plan_ev_line :: "nat \<Rightarrow> evidence_doc \<Rightarrow> string" where
  "plan_ev_line i e =
     (let ttl = (if title e \<noteq> [] then title e else ''Doc '' @ str_nat i);
          snip = py_strip (take 300 (snippet e));
          src = source e
      in ''- '' @ ttl @ '': '' @ snip @ (if src \<noteq> [] then '' ['' @ src @ '']'' else []))"

definition plan_ev_lines :: "evidence_doc list \<Rightarrow> string list" where
  "plan_ev_lines evidence =
     map (\<lambda>(i, e). plan_ev_line i e) (List.enumerate 1 (take 3 evidence))"

definition steps :: "string list" where
  "steps =
     [''Apply Lockout/Tagout (LOTO) per site procedure; verify zero energy state.'',
      ''Visually inspect housing, inlet/outlet, mounts for looseness or damage.'',
      ''Measure bearing temperature and vibration; compare with baseline limits.'',
      ''Check shaft alignment and coupling; re-align if out of tolerance.'',
      ''Lubricate/replace bearings per OEM spec if play/noise detected.'',
      ''Clear cooling passages and filters; verify ventilation/airflow.'',
      ''Run controlled test (10'' @ [CHR 0xE2, CHR 0x80, CHR 0x93]
        @ ''15 min); record temp/pressure/vibration trends.'',
      ''Update CMMS, attach readings, and trend risk for the next 7 days.'']"

definition parts :: "string list" where
  "parts =
     [''Bearing kit (per BOM)'',
      ''Coupling shims'',
      ''Approved grease/lubricant'',
      ''Cleaning kit / filters'']"

definition safety :: "string list" where
  "safety =
     [''LOTO enforced; arc-flash PPE as required'',
      ''Eye/hand protection at all times'',
      ''Follow confined-space rules if applicable'']"

definition plan_eta :: "rat \<Rightarrow> rat" where
  "plan_eta risk = (if risk \<ge> 7 / 10 then 35 / 10 else 2)"

definition rollback :: string where
  "rollback =
     ''Restore original alignment and settings; reassemble with prior shims; ''
     @ ''remove LOTO only after verification and sign-off.''"

definition numbered_steps :: "string list" where
  "numbered_steps = map (\<lambda>(i, s). str_nat (i + 1) @ ''. '' @ s) (List.enumerate 0 steps)"

text \<open>The evidence section of the plan: \<^verbatim>\<open>ev_lines or [placeholder]\<close>.\<close>

definition plan_evidence_section :: "evidence_doc list \<Rightarrow> string list" where
  "plan_evidence_section evidence =
     (if plan_ev_lines evidence \<noteq> [] then plan_ev_lines evidence else [no_evidence_line])"

definition plan_lines :: "env \<Rightarrow> string \<Rightarrow> rat \<Rightarrow> string list \<Rightarrow> evidence_doc list \<Rightarrow> string list" where
  "plan_lines ev deviceId risk failure_modes evidence =
     [''# Repair Plan for '' @ deviceId,
      ''Risk: '' @ str_float ev risk @ '' | Failure modes: '' @ join '', '' failure_modes,
      ''## Evidence (summary)'']
     @ plan_evidence_section evidence
     @ [''## Steps'']
     @ numbered_steps
     @ [''## Parts/Materials'']
     @ map (\<lambda>p. ''- '' @ p) parts
     @ [''## Safety'']
     @ map (\<lambda>s. ''- '' @ s) safety
     @ [''## ETA (hours)'' @ NL @ str_float ev (plan_eta risk),
        ''## Rollback'' @ NL @ rollback]"

definition plan_repair_workflow ::
  "env \<Rightarrow> string \<Rightarrow> rat \<Rightarrow> string list \<Rightarrow> evidence_doc list \<Rightarrow> string" where
  "plan_repair_workflow ev deviceId risk failure_modes evidence =
     join NL (plan_lines ev deviceId risk failure_modes evidence)"


subsection \<open>Alert\<close>

text \<open>
  The dictionary \<^verbatim>\<open>{"alert": .., "deviceId": .., "risk": ..}\<close>, its keys with the prefix
  \<open>alert_\<close>; the status is the string the source stores.
\<close>

record alert_result =
  alert_status :: string
  alert_deviceId :: string
  alert_risk :: rat

definition send_alert :: "string \<Rightarrow> rat \<Rightarrow> alert_result" where
  "send_alert deviceId risk =
     \<lparr>alert_status = (if risk \<ge> 7 / 10 then ''TRIGGERED'' else ''NO_ALERT''),
      alert_deviceId = deviceId,
      alert_risk = risk\<rparr>"

subsection \<open>Coordinator\<close>

text \<open>
  The incoming event, a dictionary: a key that is absent is \<open>None\<close>, a key that is
  present holds a value of the type the interface gives it.
\<close>

record event =
  evt_deviceId :: "string option"
  evt_Temperature :: "rat option"
  evt_Pressure :: "rat option"
  evt_CPU_Usage :: "rat option"
  evt_topK :: "int option"
  evt_alert_threshold :: "rat option"

text \<open>\<^verbatim>\<open>event[key]\<close>: a \<^verbatim>\<open>KeyError\<close> when the key is absent.\<close>

definition lookup :: "string \<Rightarrow> 'a option \<Rightarrow> error + 'a" where
  "lookup key v = (case v of Some x \<Rightarrow> Inr x | None \<Rightarrow> Inl (KeyError key))"

text \<open>
  What a run that returns has computed: the value returned is \<open>run_report\<close>; the other
  fields are the local variables \<^verbatim>\<open>thr\<close>, \<^verbatim>\<open>pred\<close>, \<^verbatim>\<open>evidence\<close>, \<^verbatim>\<open>plan_text\<close> and
  \<^verbatim>\<open>alert\<close> at the end of the run.
\<close>

record run =
  run_thr :: rat
  run_pred :: prediction
  run_evidence :: "evidence_doc list"
  run_plan_text :: string
  run_alert :: alert_result
  run_report :: string

text \<open>The evidence lines the coordinator writes into the report.\<close>

definition report_ev_line :: "evidence_doc \<Rightarrow> string" where
  "report_ev_line e =
     (let src = (if source e \<noteq> [] then '' ['' @ source e @ '']'' else [])
      in ''- '' @ title e @ '': '' @ snippet e @ src)"

definition report_evidence_section :: "evidence_doc list \<Rightarrow> string list" where
  "report_evidence_section evidence =
     (if evidence \<noteq> [] then map report_ev_line evidence else [no_evidence_line])"

definition report_lines ::
  "env \<Rightarrow> string \<Rightarrow> rat \<Rightarrow> prediction \<Rightarrow> evidence_doc list \<Rightarrow> string \<Rightarrow> alert_result \<Rightarrow> string list" where
  "report_lines ev deviceId thr pred evidence plan_text alert =
     [''# Smart Maintenance Report '' @ [CHR 0xE2, CHR 0x80, CHR 0x94] @ '' '' @ deviceId,
      ''## Risk & Rationale'',
      ''- Risk score: **'' @ str_float ev (pred_risk pred) @ ''**'',
      ''- Rationale: '' @ pred_rationale pred,
      ''## Failure Modes'']
     @ map (\<lambda>m. ''- '' @ m) (pred_failure_modes pred)
     @ [''## Evidence (summary)'']
     @ report_evidence_section evidence
     @ [''## Repair Plan'',
        plan_text,
        ''## Alert Status'',
        ''- '' @ alert_status alert @ '' (threshold: '' @ str_float ev thr @ '')'']"

text \<open>Stage 2 of the run: retrieval, only when the risk reaches the threshold.\<close>

definition gather_evidence ::
  "env \<Rightarrow> rat \<Rightarrow> int \<Rightarrow> prediction \<Rightarrow> rat \<Rightarrow> rat \<Rightarrow> world
     \<Rightarrow> (error + evidence_doc list) \<times> world" where
  "gather_evidence ev thr topK pred Temperature Pressure w =
     (if pred_risk pred \<ge> thr
      then (let query = join '' '' (pred_failure_modes pred)
                          @ '' pump maintenance pressure:'' @ str_float ev Pressure
                          @ '' temperature:'' @ str_float ev Temperature
            in retrieve_docs ev query topK w)
      else (Inr [], w))"

definition run_coordinator :: "env \<Rightarrow> event \<Rightarrow> world \<Rightarrow> (error + run) \<times> world" where
  "run_coordinator ev evnt w =
     (case lookup ''deviceId'' (evt_deviceId evnt) of
        Inl e \<Rightarrow> (Inl e, w)
      | Inr deviceId \<Rightarrow>
     (let thr = get_or (evt_alert_threshold evnt) (7 / 10);
          topK = get_or (evt_topK evnt) 3
      in
     (case lookup ''Temperature'' (evt_Temperature evnt) of
        Inl e \<Rightarrow> (Inl e, w)
      | Inr Temperature \<Rightarrow>
     (case lookup ''Pressure'' (evt_Pressure evnt) of
        Inl e \<Rightarrow> (Inl e, w)
      | Inr Pressure \<Rightarrow>
     (case lookup ''CPU_Usage'' (evt_CPU_Usage evnt) of
        Inl e \<Rightarrow> (Inl e, w)
      | Inr CPU_Usage \<Rightarrow>
     (case predict_failure_risk ev deviceId Temperature Pressure CPU_Usage w of
        (pred, w1) \<Rightarrow>
     (case gather_evidence ev thr topK pred Temperature Pressure w1 of
        (Inl e, w2) \<Rightarrow> (Inl e, w2)
      | (Inr evidence, w2) \<Rightarrow>
     (let plan_text = plan_repair_workflow ev deviceId (pred_risk pred)
                        (pred_failure_modes pred) evidence;
          alert = send_alert deviceId (pred_risk pred);
          report = join NL (report_lines ev deviceId thr pred evidence plan_text alert)
      in (Inr \<lparr>run_thr = thr, run_pred = pred, run_evidence = evidence,
                run_plan_text = plan_text, run_alert = alert, run_report = report\<rparr>,
          w2)))))))))"

subsection \<open>Sample inputs\<close>

text \<open>
  Concrete inputs for running the model. \<open>sample_event\<close> is the event of the module's
  main block. \<open>sample_env\<close> is an environment with the three settings present, a
  search service that answers every query with one record that has no title, and the
  two float formats written out for non-negative numbers of at most two decimals
  (\<open>0.95\<close> prints as \<^verbatim>\<open>0.95\<close>, \<open>92\<close> as \<^verbatim>\<open>92.0\<close>; with \<^verbatim>\<open>.2f\<close>, \<open>0.9\<close> prints as
  \<^verbatim>\<open>0.90\<close>). \<open>start_world\<close> is the world of a fresh process.
\<close>

definition two_decimals :: "rat \<Rightarrow> string" where
  "two_decimals x =
     (let n = nat \<lfloor>x * 100\<rfloor>; ip = n div 100; fr = n mod 100
      in str_nat ip @ ''.'' @
         (if fr mod 10 = 0 then [digit_char (fr div 10)]
          else [digit_char (fr div 10), digit_char (fr mod 10)]))"

definition fixed_2f :: "rat \<Rightarrow> string" where
  "fixed_2f x =
     (let n = nat \<lfloor>x * 100\<rfloor>; ip = n div 100; fr = n mod 100
      in str_nat ip @ ''.'' @ [digit_char (fr div 10), digit_char (fr mod 10)])"

definition sample_hit :: search_hit where
  "sample_hit =
     \<lparr>hit_title = None, hit_content = Some ''Check bearing play'', hit_chunk = None,
      hit_source = Some ''manual.pdf'', hit_score = Some 1\<rparr>"

definition sample_env :: env where
  "sample_env =
     \<lparr>AZURE_SEARCH_SERVICE = Some ''svc'',
      AZURE_SEARCH_API_KEY = Some ''key'',
      AZURE_SEARCH_INDEX = Some ''idx'',
      search_service = (\<lambda>query topK. Inr [sample_hit]),
      str_float = two_decimals,
      fmt_2f = fixed_2f\<rparr>"

definition sample_event :: event where
  "sample_event =
     \<lparr>evt_deviceId = Some ''pump-17'',
      evt_Temperature = Some 92,
      evt_Pressure = Some (82 / 10),
      evt_CPU_Usage = Some 88,
      evt_topK = Some 3,
      evt_alert_threshold = Some (7 / 10)\<rparr>"

definition start_world :: world where
  "start_world = \<lparr>STATE = STATE_init, retrieve_log = []\<rparr>"




text \<open>An event with low readings that leaves the optional keys out.\<close>

definition quiet_event :: event where
  "quiet_event =
     \<lparr>evt_deviceId = Some ''pump-1'',
      evt_Temperature = Some 50,
      evt_Pressure = Some 2,
      evt_CPU_Usage = Some 10,
      evt_topK = None,
      evt_alert_threshold = None\<rparr>"

section \<open>Properties of the state store\<close>

lemma slice_last_append:
  "py_slice_last n (py_slice_last n xs @ ys) = py_slice_last n (xs @ ys)"
proof (cases "length xs \<le> n")
  case True
  then show ?thesis by (simp add: py_slice_last_def)
next
  case False
  then have "length xs + length ys - (length xs - n + n) + (length xs - n)
               = length xs + length ys - n"
    by arith
  with False show ?thesis by (simp add: py_slice_last_def)
qed

lemma read_update:
  "read_last_state d (update_state d t p c r st) =
     \<lparr>history = py_slice_last 100 (history (read_last_state d st) @ [entry_of (t, p, c, r)]),
      lastRisk = r\<rparr>"
  by (simp add: read_last_state_def update_state_def Let_def entry_of_def fresh_record_def
        split: option.splits)

lemma read_update_other:
  "d' \<noteq> d \<Longrightarrow> read_last_state d' (update_state d t p c r st) = read_last_state d' st"
  by (simp add: read_last_state_def update_state_def Let_def fresh_record_def
        split: option.splits)

lemma fresh_record_ok: "record_ok fresh_record"
  by (simp add: record_ok_def fresh_record_def)

text \<open>
  The store invariant seen through \<^verbatim>\<open>read_last_state\<close>: the record read for any
  device, known or not, is well formed.
\<close>

lemma store_ok_read: "store_ok st \<longleftrightarrow> (\<forall>d. record_ok (read_last_state d st))"
proof
  assume a: "store_ok st"
  show "\<forall>d. record_ok (read_last_state d st)"
  proof
    fix d
    show "record_ok (read_last_state d st)"
    proof (cases "st d")
      case None
      then show ?thesis by (simp add: read_last_state_def fresh_record_ok)
    next
      case (Some r)
      then have "r \<in> ran st" by (auto simp: ran_def)
      with a Some show ?thesis by (simp add: store_ok_def read_last_state_def)
    qed
  qed
next
  assume a: "\<forall>d. record_ok (read_last_state d st)"
  show "store_ok st"
    unfolding store_ok_def
  proof
    fix r assume "r \<in> ran st"
    then obtain d where "st d = Some r" by (auto simp: ran_def)
    with a [rule_format, of d] show "record_ok r" by (simp add: read_last_state_def)
  qed
qed

lemma record_ok_update: "record_ok (read_last_state d (update_state d t p c r st))"
  by (simp add: read_update record_ok_def py_slice_last_def entry_of_def)

lemma update_state_ok: "store_ok st \<Longrightarrow> store_ok (update_state d t p c r st)"
  unfolding store_ok_read
proof
  fix d'
  assume a: "\<forall>d. record_ok (read_last_state d st)"
  show "record_ok (read_last_state d' (update_state d t p c r st))"
  proof (cases "d' = d")
    case True
    then show ?thesis by (simp add: record_ok_update)
  next
    case False
    with a show ?thesis by (simp add: read_update_other)
  qed
qed

text \<open>
  Claim C4. Every Device Record of the store has at most 100 history entries, and its
  \<^verbatim>\<open>lastRisk\<close> is the risk of the last history entry, or \<open>0.0\<close> when the history is
  empty. The invariant holds in the initial, empty store; \<^verbatim>\<open>update_state\<close>
  (recordReading) preserves it for any device and reading; \<^verbatim>\<open>read_last_state\<close>
  (readLast) leaves the store as it is (it returns a record only) and the record it
  returns, for a known or an unknown device, satisfies the invariant.
\<close>

theorem store_invariant:
  "store_ok STATE_init
   \<and> (store_ok st \<longrightarrow> store_ok (update_state d t p c r st))
   \<and> (store_ok st \<longrightarrow> record_ok (read_last_state d st))"
  using update_state_ok [of st d t p c r] store_ok_read [of st]
  by (simp add: store_ok_def STATE_init_def)

theorem store_invariant_witness:
  "store_ok STATE_init
   \<and> store_ok (update_state ''pump-17'' 92 (82 / 10) 88 (7 / 10) STATE_init)
   \<and> record_ok (read_last_state ''pump-17''
        (update_state ''pump-17'' 92 (82 / 10) 88 (7 / 10) STATE_init))
   \<and> history (read_last_state ''pump-17''
        (update_state ''pump-17'' 92 (82 / 10) 88 (7 / 10) STATE_init))
      = [\<lparr>h_T = 92, h_P = 82 / 10, h_CPU = 88, h_risk = 7 / 10\<rparr>]"
proof -
  let ?st = "update_state ''pump-17'' 92 (82 / 10) 88 (7 / 10) STATE_init"
  have a: "store_ok STATE_init"
    using store_invariant [of STATE_init] by simp
  have b: "store_ok ?st"
    using a store_invariant [of STATE_init "''pump-17''" 92 "82 / 10" 88 "7 / 10"] by simp
  have c: "record_ok (read_last_state ''pump-17'' ?st)"
    using b store_invariant [of ?st] by simp
  have d: "history (read_last_state ''pump-17'' ?st)
             = [\<lparr>h_T = 92, h_P = 82 / 10, h_CPU = 88, h_risk = 7 / 10\<rparr>]"
    by (simp add: read_last_state_def update_state_def STATE_init_def fresh_record_def
          py_slice_last_def Let_def)
  from a b c d show ?thesis by simp
qed

text \<open>
  The history of a device after a run of recordings: the last 100 of the entries it
  had, followed by the new ones.
\<close>

lemma history_record_all:
  "rds \<noteq> [] \<Longrightarrow>
   history (read_last_state d (record_all d rds st))
     = py_slice_last 100 (history (read_last_state d st) @ map entry_of rds)"
proof (induction rds arbitrary: st)
  case Nil
  then show ?case by simp
next
  case (Cons rd rds)
  obtain t p c r where rd: "rd = (t, p, c, r)" by (cases rd) auto
  show ?case
  proof (cases "rds = []")
    case True
    then show ?thesis by (simp add: rd read_update)
  next
    case False
    then have "history (read_last_state d (record_all d rds (update_state d t p c r st)))
        = py_slice_last 100
            (history (read_last_state d (update_state d t p c r st)) @ map entry_of rds)"
      by (rule Cons.IH)
    then show ?thesis by (simp add: rd read_update slice_last_append)
  qed
qed

text \<open>
  Claim C5. From the empty store, 101 recordings for one device leave its history with
  exactly 100 entries: the entries of the 2nd to the 101st recording, in the order
  they were recorded (entry \<open>i\<close> of the history is recording \<open>i + 1\<close>). The entry of the
  first recording has been dropped: it is not in the history unless a later recording
  has the very same values.
\<close>

theorem fifo_eviction:
  assumes "length rds = 101"
  shows "history (read_last_state d (record_all d rds STATE_init)) = tl (map entry_of rds)
    \<and> length (history (read_last_state d (record_all d rds STATE_init))) = 100
    \<and> (\<forall>i < 100. history (read_last_state d (record_all d rds STATE_init)) ! i
                     = entry_of (rds ! (i + 1)))
    \<and> (entry_of (hd rds) \<notin> set (map entry_of (tl rds))
         \<longrightarrow> entry_of (hd rds)
               \<notin> set (history (read_last_state d (record_all d rds STATE_init))))"
proof -
  from assms have ne: "rds \<noteq> []" by auto
  have h: "history (read_last_state d (record_all d rds STATE_init)) = tl (map entry_of rds)"
    using assms history_record_all [OF ne, of d STATE_init]
    by (simp add: read_last_state_def STATE_init_def fresh_record_def py_slice_last_def drop_Suc)
  have n: "\<forall>i < 100. tl (map entry_of rds) ! i = entry_of (rds ! (i + 1))"
    using assms by (simp add: nth_tl)
  from h n assms show ?thesis by (simp add: map_tl)
qed

theorem fifo_eviction_witness:
  "length (map (\<lambda>i. (rat_of_nat i, 0 :: rat, 0 :: rat, 0 :: rat)) [0..<101]) = 101
   \<and> entry_of (hd (map (\<lambda>i. (rat_of_nat i, 0, 0, 0)) [0..<101]))
       \<notin> set (map entry_of (tl (map (\<lambda>i. (rat_of_nat i, 0, 0, 0)) [0..<101])))
   \<and> length (history (read_last_state ''pump-17''
        (record_all ''pump-17'' (map (\<lambda>i. (rat_of_nat i, 0, 0, 0)) [0..<101]) STATE_init))) = 100
   \<and> history (read_last_state ''pump-17''
        (record_all ''pump-17'' (map (\<lambda>i. (rat_of_nat i, 0, 0, 0)) [0..<101]) STATE_init)) ! 0
       = \<lparr>h_T = 1, h_P = 0, h_CPU = 0, h_risk = 0\<rparr>
   \<and> history (read_last_state ''pump-17''
        (record_all ''pump-17'' (map (\<lambda>i. (rat_of_nat i, 0, 0, 0)) [0..<101]) STATE_init)) ! 99
       = \<lparr>h_T = 100, h_P = 0, h_CPU = 0, h_risk = 0\<rparr>
   \<and> \<lparr>h_T = 0, h_P = 0, h_CPU = 0, h_risk = 0\<rparr>
       \<notin> set (history (read_last_state ''pump-17''
        (record_all ''pump-17'' (map (\<lambda>i. (rat_of_nat i, 0, 0, 0)) [0..<101]) STATE_init)))"
proof -
  let ?rds = "map (\<lambda>i. (rat_of_nat i, 0, 0, 0 :: rat)) [0..<101]"
  have len: "length ?rds = 101" by simp
  have hd0: "entry_of (hd ?rds) = \<lparr>h_T = 0, h_P = 0, h_CPU = 0, h_risk = 0\<rparr>"
    by (simp add: hd_map entry_of_def)
  have tl0: "tl ?rds = map (\<lambda>i. (rat_of_nat i, 0, 0, 0)) [1..<101]"
    by (simp add: map_tl [symmetric])
  have fresh: "entry_of (hd ?rds) \<notin> set (map entry_of (tl ?rds))"
    unfolding hd0 tl0 by (auto simp: entry_of_def)
  have n0: "entry_of (?rds ! (0 + 1)) = \<lparr>h_T = 1, h_P = 0, h_CPU = 0, h_risk = 0\<rparr>"
    by (simp add: entry_of_def)
  have n99: "entry_of (?rds ! (99 + 1)) = \<lparr>h_T = 100, h_P = 0, h_CPU = 0, h_risk = 0\<rparr>"
    by (simp add: entry_of_def)
  note inst = fifo_eviction [OF len, of "''pump-17''"]
  from inst have a: "length (history (read_last_state ''pump-17''
        (record_all ''pump-17'' ?rds STATE_init))) = 100"
    by blast
  from inst have "\<forall>i < 100. history (read_last_state ''pump-17''
        (record_all ''pump-17'' ?rds STATE_init)) ! i = entry_of (?rds ! (i + 1))"
    by blast
  then have b: "history (read_last_state ''pump-17''
        (record_all ''pump-17'' ?rds STATE_init)) ! 0 = entry_of (?rds ! (0 + 1))"
    and c: "history (read_last_state ''pump-17''
        (record_all ''pump-17'' ?rds STATE_init)) ! 99 = entry_of (?rds ! (99 + 1))"
    by simp_all
  from inst fresh have d: "entry_of (hd ?rds)
       \<notin> set (history (read_last_state ''pump-17'' (record_all ''pump-17'' ?rds STATE_init)))"
    by blast
  show ?thesis
    using len fresh a b c d unfolding n0 n99 hd0 by blast
qed

section \<open>Properties of the risk scorer\<close>

text \<open>The scorer has eight possible results, one for each set of thresholds exceeded.\<close>

lemma compute_simple_risk_cases:
  "compute_simple_risk t p c
     = (if t > 85 then 4 / 10 else 0) + (if p > 75 / 10 then 3 / 10 else 0)
       + (if c > 90 then 2 / 10 else 0)"
  by (simp add: compute_simple_risk_def py_round2_def Let_def)

lemma pred_risk_predict:
  "pred_risk (fst (predict_failure_risk ev d t p c w)) = compute_simple_risk t p c"
  by (simp add: predict_failure_risk_def Let_def)

text \<open>
  Claim C6. For every temperature, pressure and CPU load the score lies in the closed
  interval from 0 to 1. The scorer is a function of the three readings alone: the risk
  that \<^verbatim>\<open>predict_failure_risk\<close> reports is \<^verbatim>\<open>compute_simple_risk\<close> of the readings,
  the same for any two environments, devices, stores and histories.
\<close>

theorem score_bounded_deterministic:
  "0 \<le> compute_simple_risk t p c
   \<and> compute_simple_risk t p c \<le> 1
   \<and> pred_risk (fst (predict_failure_risk ev d t p c w)) = compute_simple_risk t p c
   \<and> pred_risk (fst (predict_failure_risk ev d t p c w))
       = pred_risk (fst (predict_failure_risk ev' d' t p c w'))"
proof -
  have "0 \<le> compute_simple_risk t p c" "compute_simple_risk t p c \<le> 1"
    by (simp_all add: compute_simple_risk_cases)
  then show ?thesis by (simp add: pred_risk_predict)
qed



section \<open>Properties of the plan composer\<close>

lemma join_append:
  "xs \<noteq> [] \<Longrightarrow> ys \<noteq> [] \<Longrightarrow> join sep (xs @ ys) = join sep xs @ sep @ join sep ys"
proof (induction sep xs rule: join.induct)
  case (1 sep)
  then show ?case by simp
next
  case (2 sep x)
  then show ?case by (cases ys) simp_all
next
  case (3 sep x y ys')
  then show ?case by simp
qed

lemma str_nat_digit: "n < 10 \<Longrightarrow> str_nat n = [digit_char n]"
  by (simp add: str_nat.simps)





lemma plan_evidence_section_nonempty: "plan_evidence_section evd \<noteq> []"
  by (simp add: plan_evidence_section_def)





lemma plan_lines_tail:
  "plan_lines ev d r fm evd =
     ([''# Repair Plan for '' @ d,
       ''Risk: '' @ str_float ev r @ '' | Failure modes: '' @ join '', '' fm,
       ''## Evidence (summary)''] @ plan_evidence_section evd
      @ [''## Steps''] @ numbered_steps @ [''## Parts/Materials'']
      @ map (\<lambda>p. ''- '' @ p) parts @ [''## Safety''] @ map (\<lambda>s. ''- '' @ s) safety)
     @ [''## ETA (hours)'' @ NL @ str_float ev (plan_eta r), ''## Rollback'' @ NL @ rollback]"
  by (simp add: plan_lines_def)

lemma plan_text_tail:
  "\<exists>pre. plan_repair_workflow ev d r fm evd =
      pre @ NL @ ''## ETA (hours)'' @ NL @ str_float ev (plan_eta r)
          @ NL @ ''## Rollback'' @ NL @ rollback"
  unfolding plan_repair_workflow_def plan_lines_tail
  by (subst join_append) auto


lemma plan_text_placeholder:
  "\<exists>pre post. plan_repair_workflow ev d r fm [] =
      pre @ NL @ ''## Evidence (summary)'' @ NL
          @ ''- No external evidence referenced in this run.'' @ NL @ ''## Steps'' @ NL @ post"
proof -
  let ?A = "[''# Repair Plan for '' @ d,
       ''Risk: '' @ str_float ev r @ '' | Failure modes: '' @ join '', '' fm]"
  let ?B = "[''## Evidence (summary)'', ''- No external evidence referenced in this run.'',
       ''## Steps'']"
  let ?C = "numbered_steps @ [''## Parts/Materials'']
        @ map (\<lambda>p. ''- '' @ p) parts @ [''## Safety''] @ map (\<lambda>s. ''- '' @ s) safety
        @ [''## ETA (hours)'' @ NL @ str_float ev (plan_eta r), ''## Rollback'' @ NL @ rollback]"
  have pl: "plan_lines ev d r fm [] = ?A @ (?B @ ?C)"
    by (simp add: plan_lines_def plan_evidence_section_def plan_ev_lines_def
          no_evidence_line_def)
  have "join NL (?A @ (?B @ ?C)) = join NL ?A @ NL @ join NL (?B @ ?C)"
    by (rule join_append) simp_all
  also have "join NL (?B @ ?C) = join NL ?B @ NL @ join NL ?C"
    by (rule join_append) simp_all
  also have "join NL ?B = ''## Evidence (summary)'' @ NL
          @ ''- No external evidence referenced in this run.'' @ NL @ ''## Steps''"
    by simp
  finally have "plan_repair_workflow ev d r fm [] =
      join NL ?A @ NL @ (''## Evidence (summary)'' @ NL
          @ ''- No external evidence referenced in this run.'' @ NL @ ''## Steps'')
        @ NL @ join NL ?C"
    by (simp only: plan_repair_workflow_def pl)
  then have "plan_repair_workflow ev d r fm [] =
      join NL ?A @ NL @ ''## Evidence (summary)'' @ NL
          @ ''- No external evidence referenced in this run.'' @ NL @ ''## Steps''
        @ NL @ join NL ?C"
    by (simp only: append_assoc)
  then show ?thesis by blast
qed


section \<open>The two renderings of the evidence\<close>










section \<open>Properties of the coordinator\<close>

lemma run_coordinator_missing:
  assumes "evt_deviceId evnt = None \<or> evt_Temperature evnt = None
           \<or> evt_Pressure evnt = None \<or> evt_CPU_Usage evnt = None"
  shows "\<exists>k \<in> {''deviceId'', ''Temperature'', ''Pressure'', ''CPU_Usage''}.
           run_coordinator ev evnt w = (Inl (KeyError k), w)"
  using assms
  by (auto simp: run_coordinator_def lookup_def Let_def split: option.splits)

lemma run_coordinator_present:
  assumes "evt_deviceId evnt = Some d" "evt_Temperature evnt = Some t"
    "evt_Pressure evnt = Some p" "evt_CPU_Usage evnt = Some c"
  shows "run_coordinator ev evnt w =
     (let thr = get_or (evt_alert_threshold evnt) (7 / 10);
          topK = get_or (evt_topK evnt) 3;
          pred = fst (predict_failure_risk ev d t p c w);
          w1 = snd (predict_failure_risk ev d t p c w)
      in case gather_evidence ev thr topK pred t p w1 of
        (Inl e, w2) \<Rightarrow> (Inl e, w2)
      | (Inr evidence, w2) \<Rightarrow>
         (Inr \<lparr>run_thr = thr, run_pred = pred, run_evidence = evidence,
                run_plan_text = plan_repair_workflow ev d (pred_risk pred)
                        (pred_failure_modes pred) evidence,
                run_alert = send_alert d (pred_risk pred),
                run_report = join NL (report_lines ev d thr pred evidence
                   (plan_repair_workflow ev d (pred_risk pred) (pred_failure_modes pred) evidence)
                   (send_alert d (pred_risk pred)))\<rparr>, w2))"
  using assms
  by (simp add: run_coordinator_def lookup_def Let_def split: prod.splits sum.splits)

lemma predict_log: "retrieve_log (snd (predict_failure_risk ev d t p c w)) = retrieve_log w"
  by (simp add: predict_failure_risk_def Let_def)

lemma predict_modes:
  "pred_failure_modes (fst (predict_failure_risk ev d t p c w))
     = [''overheating'', ''bearing wear'', ''misalignment'']"
  by (simp add: predict_failure_risk_def Let_def)

lemma gather_below:
  "pred_risk pred < thr \<Longrightarrow> gather_evidence ev thr k pred t p w = (Inr [], w)"
  by (simp add: gather_evidence_def)

lemma retrieve_docs_log:
  "retrieve_log (snd (retrieve_docs ev q k w)) = retrieve_log w @ [(q, k)]"
  by (simp add: retrieve_docs_def Let_def split: sum.splits)

lemma gather_above_log:
  "thr \<le> pred_risk pred \<Longrightarrow>
   retrieve_log (snd (gather_evidence ev thr k pred t p w))
     = retrieve_log w @ [(join '' '' (pred_failure_modes pred)
          @ '' pump maintenance pressure:'' @ str_float ev p
          @ '' temperature:'' @ str_float ev t, k)]"
  by (simp add: gather_evidence_def Let_def retrieve_docs_log)

lemma run_log:
  assumes "evt_deviceId evnt = Some d" "evt_Temperature evnt = Some t"
    "evt_Pressure evnt = Some p" "evt_CPU_Usage evnt = Some c"
  shows "retrieve_log (snd (run_coordinator ev evnt w))
     = retrieve_log (snd (gather_evidence ev (get_or (evt_alert_threshold evnt) (7 / 10))
         (get_or (evt_topK evnt) 3) (fst (predict_failure_risk ev d t p c w)) t p
         (snd (predict_failure_risk ev d t p c w))))"
  by (simp add: run_coordinator_present [OF assms] Let_def split: prod.splits sum.splits)

lemma run_returns_fields:
  assumes "run_coordinator ev evnt w = (Inr rn, w')"
  shows "\<exists>d t p c. evt_deviceId evnt = Some d \<and> evt_Temperature evnt = Some t
           \<and> evt_Pressure evnt = Some p \<and> evt_CPU_Usage evnt = Some c"
proof (rule ccontr)
  assume "\<not> ?thesis"
  then have "evt_deviceId evnt = None \<or> evt_Temperature evnt = None
           \<or> evt_Pressure evnt = None \<or> evt_CPU_Usage evnt = None"
    by auto
  from run_coordinator_missing [OF this, of ev w] assms show False by auto
qed

lemma run_result:
  assumes f: "evt_deviceId evnt = Some d" "evt_Temperature evnt = Some t"
    "evt_Pressure evnt = Some p" "evt_CPU_Usage evnt = Some c"
    and r: "run_coordinator ev evnt w = (Inr rn, w')"
  shows "run_thr rn = get_or (evt_alert_threshold evnt) (7 / 10)"
    and "pred_risk (run_pred rn) = compute_simple_risk t p c"
    and "run_plan_text rn = plan_repair_workflow ev d (compute_simple_risk t p c)
           [''overheating'', ''bearing wear'', ''misalignment''] (run_evidence rn)"
    and "run_alert rn = send_alert d (compute_simple_risk t p c)"
    and "run_report rn = join NL (report_lines ev d (run_thr rn) (run_pred rn)
           (run_evidence rn) (run_plan_text rn) (run_alert rn))"
  using r unfolding run_coordinator_present [OF f] Let_def
  by (auto simp: pred_risk_predict predict_modes split: prod.splits sum.splits)

lemma run_returns:
  assumes f: "evt_deviceId evnt = Some d" "evt_Temperature evnt = Some t"
    "evt_Pressure evnt = Some p" "evt_CPU_Usage evnt = Some c"
    and g: "gather_evidence ev (get_or (evt_alert_threshold evnt) (7 / 10))
         (get_or (evt_topK evnt) 3) (fst (predict_failure_risk ev d t p c w)) t p
         (snd (predict_failure_risk ev d t p c w)) = (Inr evd, w2)"
  shows "\<exists>rn. run_coordinator ev evnt w = (Inr rn, w2) \<and> run_evidence rn = evd"
  unfolding run_coordinator_present [OF f] Let_def g by simp

lemma report_tail:
  "\<exists>pre. join NL (report_lines ev d thr pred evd plan alert) =
      pre @ NL @ ''## Alert Status'' @ NL
          @ ''- '' @ alert_status alert @ '' (threshold: '' @ str_float ev thr @ '')''"
proof -
  let ?A = "[''# Smart Maintenance Report '' @ [CHR 0xE2, CHR 0x80, CHR 0x94] @ '' '' @ d,
      ''## Risk & Rationale'',
      ''- Risk score: **'' @ str_float ev (pred_risk pred) @ ''**'',
      ''- Rationale: '' @ pred_rationale pred,
      ''## Failure Modes'']
     @ map (\<lambda>m. ''- '' @ m) (pred_failure_modes pred)
     @ [''## Evidence (summary)'']
     @ report_evidence_section evd
     @ [''## Repair Plan'', plan]"
  let ?B = "[''## Alert Status'',
        ''- '' @ alert_status alert @ '' (threshold: '' @ str_float ev thr @ '')'']"
  have "report_lines ev d thr pred evd plan alert = ?A @ ?B"
    by (simp add: report_lines_def)
  moreover have "join NL (?A @ ?B) = join NL ?A @ NL @ join NL ?B"
    by (rule join_append) simp_all
  ultimately have "join NL (report_lines ev d thr pred evd plan alert)
      = join NL ?A @ NL @ join NL ?B"
    by (simp only:)
  then show ?thesis by (simp del: append_Cons)
qed

lemma two_decimals_samples:
  "two_decimals 92 = ''92.0''" "two_decimals (82 / 10) = ''8.2''"
  "two_decimals (95 / 100) = ''0.95''" "two_decimals (1 / 2) = ''0.5''"
  "two_decimals (35 / 10) = ''3.5''" "two_decimals 2 = ''2.0''"
  "two_decimals 50 = ''50.0''" "two_decimals 0 = ''0.0''"
  by (simp_all add: two_decimals_def Let_def str_nat.simps [of 92] str_nat.simps [of 50]
        str_nat_digit digit_char_def)

lemma sample_gather:
  "thr \<le> pred_risk pred \<Longrightarrow>
   gather_evidence sample_env thr k pred t p w
     = (Inr [doc_of_hit sample_hit],
        w\<lparr>retrieve_log := retrieve_log w @
            [(join '' '' (pred_failure_modes pred)
              @ '' pump maintenance pressure:'' @ two_decimals p
              @ '' temperature:'' @ two_decimals t, k)]\<rparr>)"
  by (simp add: gather_evidence_def retrieve_docs_def build_search_client_def truthy_def
        sample_env_def Let_def)

lemma send_alert_status:
  "alert_status (send_alert d r) = (if 7 / 10 \<le> r then ''TRIGGERED'' else ''NO_ALERT'')"
  by (simp add: send_alert_def)

text \<open>
  Claim C10. When the event lacks one of the keys \<^verbatim>\<open>deviceId\<close>, \<^verbatim>\<open>Temperature\<close>,
  \<^verbatim>\<open>Pressure\<close>, \<^verbatim>\<open>CPU_Usage\<close>, the run fails with a \<^verbatim>\<open>KeyError\<close> for the first of
  them that is missing (in that order), before scoring and recording: the world it
  leaves is the world it started in, so no device record is created or changed and
  nothing is retrieved.
\<close>

theorem missing_field_aborts:
  assumes "evt_deviceId evnt = None \<or> evt_Temperature evnt = None
           \<or> evt_Pressure evnt = None \<or> evt_CPU_Usage evnt = None"
  shows "run_coordinator ev evnt w =
     (Inl (KeyError (if evt_deviceId evnt = None then ''deviceId''
                     else if evt_Temperature evnt = None then ''Temperature''
                     else if evt_Pressure evnt = None then ''Pressure''
                     else ''CPU_Usage'')), w)"
  using assms
  by (auto simp: run_coordinator_def lookup_def Let_def split: option.splits)

theorem missing_field_aborts_witness:
  "evt_CPU_Usage (sample_event\<lparr>evt_CPU_Usage := None\<rparr>) = None
   \<and> run_coordinator sample_env (sample_event\<lparr>evt_CPU_Usage := None\<rparr>) start_world
       = (Inl (KeyError ''CPU_Usage''), start_world)
   \<and> run_coordinator sample_env (sample_event\<lparr>evt_deviceId := None\<rparr>) start_world
       = (Inl (KeyError ''deviceId''), start_world)"
  using missing_field_aborts [of "sample_event\<lparr>evt_CPU_Usage := None\<rparr>" sample_env start_world]
    missing_field_aborts [of "sample_event\<lparr>evt_deviceId := None\<rparr>" sample_env start_world]
  by (simp add: sample_event_def)

text \<open>
  Claim C3. In a run on an event with its four required keys, \<^verbatim>\<open>retrieve_docs\<close> is
  called if and only if the computed risk is at least the alert threshold of the run
  (the event's \<^verbatim>\<open>alert_threshold\<close>, or \<open>0.7\<close>), and then once, with the query built
  from the failure modes and the readings and with the run's \<open>topK\<close>. When the risk is
  below the threshold nothing is retrieved, the run returns, the plan composer receives
  the empty evidence list and the evidence section of the plan is the placeholder
  line.
\<close>

theorem retrieval_gate:
  assumes "evt_deviceId evnt = Some d" "evt_Temperature evnt = Some t"
    "evt_Pressure evnt = Some p" "evt_CPU_Usage evnt = Some c"
  shows
   "(retrieve_log (snd (run_coordinator ev evnt w)) \<noteq> retrieve_log w
       \<longleftrightarrow> get_or (evt_alert_threshold evnt) (7 / 10) \<le> compute_simple_risk t p c)
    \<and> (get_or (evt_alert_threshold evnt) (7 / 10) \<le> compute_simple_risk t p c \<longrightarrow>
         retrieve_log (snd (run_coordinator ev evnt w))
           = retrieve_log w @
             [(''overheating bearing wear misalignment pump maintenance pressure:''
                 @ str_float ev p @ '' temperature:'' @ str_float ev t,
               get_or (evt_topK evnt) 3)])
    \<and> (compute_simple_risk t p c < get_or (evt_alert_threshold evnt) (7 / 10) \<longrightarrow>
         retrieve_log (snd (run_coordinator ev evnt w)) = retrieve_log w
         \<and> (\<exists>rn. fst (run_coordinator ev evnt w) = Inr rn
               \<and> run_evidence rn = []
               \<and> run_plan_text rn
                   = plan_repair_workflow ev d (compute_simple_risk t p c)
                       [''overheating'', ''bearing wear'', ''misalignment''] []
               \<and> plan_evidence_section (run_evidence rn)
                   = [''- No external evidence referenced in this run.'']
               \<and> (\<exists>pre post. run_plan_text rn =
                     pre @ NL @ ''## Evidence (summary)'' @ NL
                       @ ''- No external evidence referenced in this run.'' @ NL
                       @ ''## Steps'' @ NL @ post)))"
proof -
  let ?thr = "get_or (evt_alert_threshold evnt) (7 / 10)"
  let ?risk = "compute_simple_risk t p c"
  let ?pred = "fst (predict_failure_risk ev d t p c w)"
  let ?w1 = "snd (predict_failure_risk ev d t p c w)"
  have risk: "pred_risk ?pred = ?risk" by (simp add: pred_risk_predict)
  have above: "retrieve_log (snd (run_coordinator ev evnt w))
           = retrieve_log w @
             [(''overheating bearing wear misalignment pump maintenance pressure:''
                 @ str_float ev p @ '' temperature:'' @ str_float ev t,
               get_or (evt_topK evnt) 3)]" if "?thr \<le> ?risk"
    using that
    by (simp add: run_log [OF assms] gather_above_log risk predict_log predict_modes)
  have below_log: "retrieve_log (snd (run_coordinator ev evnt w)) = retrieve_log w"
    if "?risk < ?thr"
    using that by (simp add: run_log [OF assms] gather_below risk predict_log)
  have below_run: "\<exists>rn. fst (run_coordinator ev evnt w) = Inr rn
               \<and> run_evidence rn = []
               \<and> run_plan_text rn
                   = plan_repair_workflow ev d ?risk
                       [''overheating'', ''bearing wear'', ''misalignment''] []"
    if "?risk < ?thr"
    using that
    by (simp add: run_coordinator_present [OF assms] Let_def gather_below risk predict_modes)
  have ph: "plan_evidence_section [] = [''- No external evidence referenced in this run.'']"
    by (simp add: plan_evidence_section_def plan_ev_lines_def no_evidence_line_def)
  have iff: "retrieve_log (snd (run_coordinator ev evnt w)) \<noteq> retrieve_log w
       \<longleftrightarrow> ?thr \<le> ?risk"
  proof (cases "?thr \<le> ?risk")
    case True
    then show ?thesis using above by simp
  next
    case False
    then show ?thesis using below_log by simp
  qed
  show ?thesis
    using iff above below_log below_run ph
      plan_text_placeholder [of ev d ?risk "[''overheating'', ''bearing wear'', ''misalignment'']"]
    by (metis (no_types, lifting))
qed

theorem retrieval_gate_witness:
  "evt_deviceId sample_event = Some ''pump-17'' \<and> evt_Temperature sample_event = Some 92
   \<and> evt_Pressure sample_event = Some (82 / 10) \<and> evt_CPU_Usage sample_event = Some 88
   \<and> get_or (evt_alert_threshold sample_event) (7 / 10) \<le> compute_simple_risk 92 (82 / 10) 88
   \<and> retrieve_log (snd (run_coordinator sample_env sample_event start_world))
       = [(''overheating bearing wear misalignment pump maintenance pressure:8.2 temperature:92.0'',
           3)]
   \<and> evt_deviceId quiet_event = Some ''pump-1'' \<and> evt_Temperature quiet_event = Some 50
   \<and> evt_Pressure quiet_event = Some 2 \<and> evt_CPU_Usage quiet_event = Some 10
   \<and> compute_simple_risk 50 2 10 < get_or (evt_alert_threshold quiet_event) (7 / 10)
   \<and> retrieve_log (snd (run_coordinator sample_env quiet_event start_world)) = []
   \<and> (\<exists>rn. fst (run_coordinator sample_env quiet_event start_world) = Inr rn
         \<and> run_evidence rn = []
         \<and> plan_evidence_section (run_evidence rn)
             = [''- No external evidence referenced in this run.''])"
proof -
  have f: "evt_deviceId sample_event = Some ''pump-17''" "evt_Temperature sample_event = Some 92"
    "evt_Pressure sample_event = Some (82 / 10)" "evt_CPU_Usage sample_event = Some 88"
    by (simp_all add: sample_event_def)
  have g: "evt_deviceId quiet_event = Some ''pump-1''" "evt_Temperature quiet_event = Some 50"
    "evt_Pressure quiet_event = Some 2" "evt_CPU_Usage quiet_event = Some 10"
    by (simp_all add: quiet_event_def)
  have hi: "get_or (evt_alert_threshold sample_event) (7 / 10)
              \<le> compute_simple_risk 92 (82 / 10) 88"
    by (simp add: sample_event_def get_or_def compute_simple_risk_cases)
  have lo: "compute_simple_risk 50 2 10 < get_or (evt_alert_threshold quiet_event) (7 / 10)"
    by (simp add: quiet_event_def get_or_def compute_simple_risk_cases)
  have s1: "str_float sample_env = two_decimals" by (simp add: sample_env_def)
  have s2: "retrieve_log start_world = []" by (simp add: start_world_def)
  have s3: "get_or (evt_topK sample_event) 3 = 3" by (simp add: sample_event_def get_or_def)
  have a: "retrieve_log (snd (run_coordinator sample_env sample_event start_world))
       = [(''overheating bearing wear misalignment pump maintenance pressure:8.2 temperature:92.0'',
           3)]"
    using retrieval_gate [OF f, of sample_env start_world] hi
    by (simp only: s1 s2 s3 two_decimals_samples) simp
  have b: "retrieve_log (snd (run_coordinator sample_env quiet_event start_world)) = []
   \<and> (\<exists>rn. fst (run_coordinator sample_env quiet_event start_world) = Inr rn
         \<and> run_evidence rn = []
         \<and> plan_evidence_section (run_evidence rn)
             = [''- No external evidence referenced in this run.''])"
    using retrieval_gate [OF g, of sample_env start_world] lo
    by (simp only: s2) blast
  from f g hi lo a b show ?thesis by blast
qed

text \<open>
  Claim C8. The ETA of the plan is \<open>3.5\<close> exactly when the risk is at least \<open>0.7\<close> and
  \<open>2.0\<close> exactly when it is below, for every input of the plan composer, and the plan
  text renders it under the heading \<^verbatim>\<open>## ETA (hours)\<close>, before the rollback section.
  The alert threshold plays no part: two runs of the coordinator from the same world
  on events that differ in \<^verbatim>\<open>alert_threshold\<close> only compute the same risk, and their
  plans end with the same ETA and rollback sections, whatever evidence each of them
  retrieved.
\<close>

theorem eta_threshold:
  "(plan_eta r = 35 / 10 \<longleftrightarrow> 7 / 10 \<le> r)
   \<and> (plan_eta r = 2 \<longleftrightarrow> r < 7 / 10)
   \<and> (\<exists>pre. plan_repair_workflow ev d r fm evd =
         pre @ NL @ ''## ETA (hours)'' @ NL
             @ str_float ev (if 7 / 10 \<le> r then 35 / 10 else 2)
             @ NL @ ''## Rollback'' @ NL @ rollback)
   \<and> (\<forall>rn rn' w1 w2.
         run_coordinator ev evnt w = (Inr rn, w1)
         \<and> run_coordinator ev (evnt\<lparr>evt_alert_threshold := a\<rparr>) w = (Inr rn', w2)
         \<longrightarrow> pred_risk (run_pred rn') = pred_risk (run_pred rn)
             \<and> (\<exists>pre pre'.
                   run_plan_text rn =
                     pre @ NL @ ''## ETA (hours)'' @ NL
                         @ str_float ev (plan_eta (pred_risk (run_pred rn)))
                         @ NL @ ''## Rollback'' @ NL @ rollback
                 \<and> run_plan_text rn' =
                     pre' @ NL @ ''## ETA (hours)'' @ NL
                         @ str_float ev (plan_eta (pred_risk (run_pred rn)))
                         @ NL @ ''## Rollback'' @ NL @ rollback))"
proof -
  have a: "plan_eta r = 35 / 10 \<longleftrightarrow> 7 / 10 \<le> r" "plan_eta r = 2 \<longleftrightarrow> r < 7 / 10"
    by (auto simp: plan_eta_def)
  have b: "\<exists>pre. plan_repair_workflow ev d r fm evd =
         pre @ NL @ ''## ETA (hours)'' @ NL
             @ str_float ev (if 7 / 10 \<le> r then 35 / 10 else 2)
             @ NL @ ''## Rollback'' @ NL @ rollback"
    using plan_text_tail [of ev d r fm evd] by (simp only: plan_eta_def)
  have c: "pred_risk (run_pred rn') = pred_risk (run_pred rn)
             \<and> (\<exists>pre pre'.
                   run_plan_text rn =
                     pre @ NL @ ''## ETA (hours)'' @ NL
                         @ str_float ev (plan_eta (pred_risk (run_pred rn)))
                         @ NL @ ''## Rollback'' @ NL @ rollback
                 \<and> run_plan_text rn' =
                     pre' @ NL @ ''## ETA (hours)'' @ NL
                         @ str_float ev (plan_eta (pred_risk (run_pred rn)))
                         @ NL @ ''## Rollback'' @ NL @ rollback)"
    if r1: "run_coordinator ev evnt w = (Inr rn, w1)"
      and r2: "run_coordinator ev (evnt\<lparr>evt_alert_threshold := a\<rparr>) w = (Inr rn', w2)"
    for rn rn' w1 w2
  proof -
    from run_returns_fields [OF r1] obtain d' t p c where
      f: "evt_deviceId evnt = Some d'" "evt_Temperature evnt = Some t"
         "evt_Pressure evnt = Some p" "evt_CPU_Usage evnt = Some c"
      by blast
    then have f': "evt_deviceId (evnt\<lparr>evt_alert_threshold := a\<rparr>) = Some d'"
      "evt_Temperature (evnt\<lparr>evt_alert_threshold := a\<rparr>) = Some t"
      "evt_Pressure (evnt\<lparr>evt_alert_threshold := a\<rparr>) = Some p"
      "evt_CPU_Usage (evnt\<lparr>evt_alert_threshold := a\<rparr>) = Some c"
      by simp_all
    note one = run_result(2,3) [OF f r1]
    note two = run_result(2,3) [OF f' r2]
    from one two have "pred_risk (run_pred rn') = pred_risk (run_pred rn)" by simp
    moreover from one two
      plan_text_tail [of ev d' "compute_simple_risk t p c"
        "[''overheating'', ''bearing wear'', ''misalignment'']" "run_evidence rn"]
      plan_text_tail [of ev d' "compute_simple_risk t p c"
        "[''overheating'', ''bearing wear'', ''misalignment'']" "run_evidence rn'"]
    have "\<exists>pre pre'.
                   run_plan_text rn =
                     pre @ NL @ ''## ETA (hours)'' @ NL
                         @ str_float ev (plan_eta (pred_risk (run_pred rn)))
                         @ NL @ ''## Rollback'' @ NL @ rollback
                 \<and> run_plan_text rn' =
                     pre' @ NL @ ''## ETA (hours)'' @ NL
                         @ str_float ev (plan_eta (pred_risk (run_pred rn)))
                         @ NL @ ''## Rollback'' @ NL @ rollback"
      by (simp only:) blast
    ultimately show ?thesis by blast
  qed
  from a b c show ?thesis by blast
qed

theorem eta_threshold_witness:
  "\<exists>rn rn' w1 w2.
      run_coordinator sample_env sample_event start_world = (Inr rn, w1)
    \<and> run_coordinator sample_env (sample_event\<lparr>evt_alert_threshold := Some (95 / 100)\<rparr>)
        start_world = (Inr rn', w2)
    \<and> run_evidence rn = [doc_of_hit sample_hit] \<and> run_evidence rn' = []
    \<and> pred_risk (run_pred rn') = pred_risk (run_pred rn)
    \<and> (\<exists>pre pre'.
          run_plan_text rn =
            pre @ NL @ ''## ETA (hours)'' @ NL @ ''3.5'' @ NL @ ''## Rollback'' @ NL @ rollback
        \<and> run_plan_text rn' =
            pre' @ NL @ ''## ETA (hours)'' @ NL @ ''3.5'' @ NL @ ''## Rollback'' @ NL @ rollback)"
proof -
  let ?e2 = "sample_event\<lparr>evt_alert_threshold := Some (95 / 100)\<rparr>"
  have f: "evt_deviceId sample_event = Some ''pump-17''" "evt_Temperature sample_event = Some 92"
    "evt_Pressure sample_event = Some (82 / 10)" "evt_CPU_Usage sample_event = Some 88"
    by (simp_all add: sample_event_def)
  have f2: "evt_deviceId ?e2 = Some ''pump-17''" "evt_Temperature ?e2 = Some 92"
    "evt_Pressure ?e2 = Some (82 / 10)" "evt_CPU_Usage ?e2 = Some 88"
    by (simp_all add: sample_event_def)
  have risk: "compute_simple_risk 92 (82 / 10) 88 = 7 / 10"
    by (simp add: compute_simple_risk_cases)
  have "\<exists>w2. gather_evidence sample_env (get_or (evt_alert_threshold sample_event) (7 / 10))
         (get_or (evt_topK sample_event) 3)
         (fst (predict_failure_risk sample_env ''pump-17'' 92 (82 / 10) 88 start_world))
         92 (82 / 10)
         (snd (predict_failure_risk sample_env ''pump-17'' 92 (82 / 10) 88 start_world))
       = (Inr [doc_of_hit sample_hit], w2)"
  proof -
    have "get_or (evt_alert_threshold sample_event) (7 / 10)
        \<le> pred_risk (fst (predict_failure_risk sample_env ''pump-17'' 92 (82 / 10) 88
                 start_world))"
      unfolding pred_risk_predict risk by (simp add: sample_event_def get_or_def)
    from sample_gather [OF this] show ?thesis by blast
  qed
  then obtain wa where "gather_evidence sample_env
         (get_or (evt_alert_threshold sample_event) (7 / 10))
         (get_or (evt_topK sample_event) 3)
         (fst (predict_failure_risk sample_env ''pump-17'' 92 (82 / 10) 88 start_world))
         92 (82 / 10)
         (snd (predict_failure_risk sample_env ''pump-17'' 92 (82 / 10) 88 start_world))
       = (Inr [doc_of_hit sample_hit], wa)"
    by blast
  from run_returns [OF f this] obtain rn where
    r1: "run_coordinator sample_env sample_event start_world = (Inr rn, wa)"
    and e1: "run_evidence rn = [doc_of_hit sample_hit]"
    by blast
  have "gather_evidence sample_env (get_or (evt_alert_threshold ?e2) (7 / 10))
         (get_or (evt_topK ?e2) 3)
         (fst (predict_failure_risk sample_env ''pump-17'' 92 (82 / 10) 88 start_world))
         92 (82 / 10)
         (snd (predict_failure_risk sample_env ''pump-17'' 92 (82 / 10) 88 start_world))
       = (Inr [], snd (predict_failure_risk sample_env ''pump-17'' 92 (82 / 10) 88 start_world))"
  proof (rule gather_below)
    show "pred_risk (fst (predict_failure_risk sample_env ''pump-17'' 92 (82 / 10) 88
                 start_world))
        < get_or (evt_alert_threshold ?e2) (7 / 10)"
      unfolding pred_risk_predict risk by (simp add: get_or_def)
  qed
  from run_returns [OF f2 this] obtain rn' where
    r2: "run_coordinator sample_env ?e2 start_world
           = (Inr rn', snd (predict_failure_risk sample_env ''pump-17'' 92 (82 / 10) 88 start_world))"
    and e2: "run_evidence rn' = []"
    by blast
  have pr: "pred_risk (run_pred rn) = 7 / 10"
    using run_result(2) [OF f r1] risk by simp
  have eta: "str_float sample_env (plan_eta (pred_risk (run_pred rn))) = ''3.5''"
  proof -
    have e: "plan_eta (7 / 10) = 35 / 10" by (simp add: plan_eta_def)
    have s1: "str_float sample_env = two_decimals" by (simp add: sample_env_def)
    show ?thesis unfolding pr e s1 by (rule two_decimals_samples)
  qed
  from eta_threshold [of _ sample_env _ _ _ sample_event start_world "Some (95 / 100)"] r1 r2
  have "pred_risk (run_pred rn') = pred_risk (run_pred rn)
             \<and> (\<exists>pre pre'.
                   run_plan_text rn =
                     pre @ NL @ ''## ETA (hours)'' @ NL
                         @ str_float sample_env (plan_eta (pred_risk (run_pred rn)))
                         @ NL @ ''## Rollback'' @ NL @ rollback
                 \<and> run_plan_text rn' =
                     pre' @ NL @ ''## ETA (hours)'' @ NL
                         @ str_float sample_env (plan_eta (pred_risk (run_pred rn)))
                         @ NL @ ''## Rollback'' @ NL @ rollback)"
    by blast
  then have "pred_risk (run_pred rn') = pred_risk (run_pred rn)
             \<and> (\<exists>pre pre'.
                   run_plan_text rn =
                     pre @ NL @ ''## ETA (hours)'' @ NL @ ''3.5''
                         @ NL @ ''## Rollback'' @ NL @ rollback
                 \<and> run_plan_text rn' =
                     pre' @ NL @ ''## ETA (hours)'' @ NL @ ''3.5''
                         @ NL @ ''## Rollback'' @ NL @ rollback)"
    by (simp only: eta)
  with r1 r2 e1 e2 show ?thesis by blast
qed

text \<open>
  Claim C1 does not hold of the code: \<^verbatim>\<open>send_alert\<close> compares the risk with the
  literal \<open>0.7\<close> and never sees the threshold of the run, while the report prints the
  status next to that threshold. Two runs show it. With \<^verbatim>\<open>alert_threshold\<close> \<open>0.95\<close>
  and readings \<open>(92, 8.2, 95)\<close> the risk is \<open>0.9\<close>, below the threshold, and the status
  is \<^verbatim>\<open>TRIGGERED\<close>. With \<^verbatim>\<open>alert_threshold\<close> \<open>0.5\<close> and readings \<open>(92, 0, 95)\<close> the
  risk is \<open>0.6\<close>, above the threshold, and the status is \<^verbatim>\<open>NO_ALERT\<close>.
\<close>

theorem alert_ignores_threshold:
  "\<exists>rn w1 rn' w2.
      run_coordinator sample_env
        (sample_event\<lparr>evt_CPU_Usage := Some 95, evt_alert_threshold := Some (95 / 100)\<rparr>)
        start_world = (Inr rn, w1)
    \<and> pred_risk (run_pred rn) = 9 / 10 \<and> run_thr rn = 95 / 100
    \<and> pred_risk (run_pred rn) < run_thr rn
    \<and> alert_status (run_alert rn) = ''TRIGGERED''
    \<and> (\<exists>pre. run_report rn =
          pre @ NL @ ''## Alert Status'' @ NL @ ''- TRIGGERED (threshold: 0.95)'')
    \<and> run_coordinator sample_env
        (sample_event\<lparr>evt_Pressure := Some 0, evt_CPU_Usage := Some 95,
                       evt_alert_threshold := Some (1 / 2)\<rparr>)
        start_world = (Inr rn', w2)
    \<and> pred_risk (run_pred rn') = 6 / 10 \<and> run_thr rn' = 1 / 2
    \<and> run_thr rn' \<le> pred_risk (run_pred rn')
    \<and> alert_status (run_alert rn') = ''NO_ALERT''
    \<and> (\<exists>pre. run_report rn' =
          pre @ NL @ ''## Alert Status'' @ NL @ ''- NO_ALERT (threshold: 0.5)'')"
proof -
  let ?e1 = "sample_event\<lparr>evt_CPU_Usage := Some 95, evt_alert_threshold := Some (95 / 100)\<rparr>"
  let ?e2 = "sample_event\<lparr>evt_Pressure := Some 0, evt_CPU_Usage := Some 95,
                       evt_alert_threshold := Some (1 / 2)\<rparr>"
  have s1: "str_float sample_env = two_decimals" by (simp add: sample_env_def)
  have f1: "evt_deviceId ?e1 = Some ''pump-17''" "evt_Temperature ?e1 = Some 92"
    "evt_Pressure ?e1 = Some (82 / 10)" "evt_CPU_Usage ?e1 = Some 95"
    by (simp_all add: sample_event_def)
  have f2: "evt_deviceId ?e2 = Some ''pump-17''" "evt_Temperature ?e2 = Some 92"
    "evt_Pressure ?e2 = Some 0" "evt_CPU_Usage ?e2 = Some 95"
    by (simp_all add: sample_event_def)
  have t1: "get_or (evt_alert_threshold ?e1) (7 / 10) = 95 / 100"
    and t2: "get_or (evt_alert_threshold ?e2) (7 / 10) = 1 / 2"
    by (simp_all add: get_or_def)
  have risk1: "compute_simple_risk 92 (82 / 10) 95 = 9 / 10"
    and risk2: "compute_simple_risk 92 0 95 = 6 / 10"
    by (simp_all add: compute_simple_risk_cases)
  have "gather_evidence sample_env (get_or (evt_alert_threshold ?e1) (7 / 10))
         (get_or (evt_topK ?e1) 3)
         (fst (predict_failure_risk sample_env ''pump-17'' 92 (82 / 10) 95 start_world))
         92 (82 / 10)
         (snd (predict_failure_risk sample_env ''pump-17'' 92 (82 / 10) 95 start_world))
       = (Inr [], snd (predict_failure_risk sample_env ''pump-17'' 92 (82 / 10) 95 start_world))"
  proof (rule gather_below)
    show "pred_risk (fst (predict_failure_risk sample_env ''pump-17'' 92 (82 / 10) 95
                 start_world))
        < get_or (evt_alert_threshold ?e1) (7 / 10)"
      unfolding pred_risk_predict risk1 t1 by simp
  qed
  from run_returns [OF f1 this] obtain rn w1 where
    r1: "run_coordinator sample_env ?e1 start_world = (Inr rn, w1)"
    by blast
  note res1 = run_result [OF f1 r1]
  have a1: "pred_risk (run_pred rn) = 9 / 10" using res1(2) risk1 by simp
  have a2: "run_thr rn = 95 / 100" using res1(1) t1 by simp
  have a3: "alert_status (run_alert rn) = ''TRIGGERED''"
    unfolding res1(4) send_alert_status risk1 by simp
  have a4: "\<exists>pre. run_report rn =
          pre @ NL @ ''## Alert Status'' @ NL @ ''- TRIGGERED (threshold: 0.95)''"
  proof -
    from report_tail [of sample_env "''pump-17''" "run_thr rn" "run_pred rn" "run_evidence rn"
        "run_plan_text rn" "run_alert rn"]
    obtain pre where "join NL (report_lines sample_env ''pump-17'' (run_thr rn) (run_pred rn)
           (run_evidence rn) (run_plan_text rn) (run_alert rn))
        = pre @ NL @ ''## Alert Status'' @ NL
            @ (''- '' @ alert_status (run_alert rn) @ '' (threshold: ''
               @ str_float sample_env (run_thr rn) @ '')'')"
      by auto
    then have rep: "run_report rn = pre @ NL @ ''## Alert Status'' @ NL
            @ (''- '' @ alert_status (run_alert rn) @ '' (threshold: ''
               @ str_float sample_env (run_thr rn) @ '')'')"
      by (simp only: res1(5))
    have "''- '' @ alert_status (run_alert rn) @ '' (threshold: ''
               @ str_float sample_env (run_thr rn) @ '')'' = ''- TRIGGERED (threshold: 0.95)''"
      unfolding a3 a2 s1 two_decimals_samples by simp
    with rep show ?thesis by (simp only:) blast
  qed
  have "\<exists>w. gather_evidence sample_env (get_or (evt_alert_threshold ?e2) (7 / 10))
         (get_or (evt_topK ?e2) 3)
         (fst (predict_failure_risk sample_env ''pump-17'' 92 0 95 start_world))
         92 0
         (snd (predict_failure_risk sample_env ''pump-17'' 92 0 95 start_world))
       = (Inr [doc_of_hit sample_hit], w)"
  proof -
    have "get_or (evt_alert_threshold ?e2) (7 / 10)
        \<le> pred_risk (fst (predict_failure_risk sample_env ''pump-17'' 92 0 95 start_world))"
      unfolding pred_risk_predict risk2 t2 by simp
    from sample_gather [OF this] show ?thesis by blast
  qed
  then obtain wb where "gather_evidence sample_env (get_or (evt_alert_threshold ?e2) (7 / 10))
         (get_or (evt_topK ?e2) 3)
         (fst (predict_failure_risk sample_env ''pump-17'' 92 0 95 start_world))
         92 0
         (snd (predict_failure_risk sample_env ''pump-17'' 92 0 95 start_world))
       = (Inr [doc_of_hit sample_hit], wb)"
    by blast
  from run_returns [OF f2 this] obtain rn' where
    r2: "run_coordinator sample_env ?e2 start_world = (Inr rn', wb)"
    by blast
  note res2 = run_result [OF f2 r2]
  have b1: "pred_risk (run_pred rn') = 6 / 10" using res2(2) risk2 by simp
  have b2: "run_thr rn' = 1 / 2" using res2(1) t2 by simp
  have b3: "alert_status (run_alert rn') = ''NO_ALERT''"
    unfolding res2(4) send_alert_status risk2 by simp
  have b4: "\<exists>pre. run_report rn' =
          pre @ NL @ ''## Alert Status'' @ NL @ ''- NO_ALERT (threshold: 0.5)''"
  proof -
    from report_tail [of sample_env "''pump-17''" "run_thr rn'" "run_pred rn'" "run_evidence rn'"
        "run_plan_text rn'" "run_alert rn'"]
    obtain pre where "join NL (report_lines sample_env ''pump-17'' (run_thr rn') (run_pred rn')
           (run_evidence rn') (run_plan_text rn') (run_alert rn'))
        = pre @ NL @ ''## Alert Status'' @ NL
            @ (''- '' @ alert_status (run_alert rn') @ '' (threshold: ''
               @ str_float sample_env (run_thr rn') @ '')'')"
      by auto
    then have rep: "run_report rn' = pre @ NL @ ''## Alert Status'' @ NL
            @ (''- '' @ alert_status (run_alert rn') @ '' (threshold: ''
               @ str_float sample_env (run_thr rn') @ '')'')"
      by (simp only: res2(5))
    have "''- '' @ alert_status (run_alert rn') @ '' (threshold: ''
               @ str_float sample_env (run_thr rn') @ '')'' = ''- NO_ALERT (threshold: 0.5)''"
      unfolding b3 b2 s1 two_decimals_samples by simp
    with rep show ?thesis by (simp only:) blast
  qed
  have c1: "pred_risk (run_pred rn) < run_thr rn" unfolding a1 a2 by simp
  have c2: "run_thr rn' \<le> pred_risk (run_pred rn')" unfolding b1 b2 by simp
  from r1 a1 a2 c1 a3 a4 r2 b1 b2 c2 b3 b4 show ?thesis by blast
qed

end
